theory Spec2Isabelle
  imports Main "HOL-Library.Char_ord" "HOL-Library.List_Lexorder" "HOL-Library.Multiset"
begin

section \<open>Python values, exceptions, dictionaries and text\<close>

text \<open>
  The module \<^verbatim>\<open>shoemaker.py\<close> has two classes, \<^verbatim>\<open>PairsHeader\<close> and
  \<^verbatim>\<open>PairsLine\<close>. Every check in it is an \<^verbatim>\<open>assert\<close>, so a failed check
  raises \<^verbatim>\<open>AssertionError\<close>; reading an attribute that was never assigned raises
  \<^verbatim>\<open>AttributeError\<close>, and a dictionary lookup of an absent key \<^verbatim>\<open>KeyError\<close>.
\<close>

datatype error = AssertionError | AttributeError | KeyError

text \<open>
  The two positions of \<^verbatim>\<open>PairsLine.add\<close> are tested with \<^verbatim>\<open>isinstance(pos, int)\<close>,
  so they are dynamically typed values. \<^verbatim>\<open>bool\<close> is a subclass of \<^verbatim>\<open>int\<close> in Python:
  \<^verbatim>\<open>isinstance(True, int)\<close> holds and \<^verbatim>\<open>True\<close> compares as 1.
\<close>

datatype pyval = PyInt int | PyBool bool | PyStr string | PyNone

text \<open>
  \<open>int_of v\<close> is the integer that \<open>v\<close> is when \<^verbatim>\<open>isinstance(v, int)\<close> holds, and
  \<open>None\<close> when it does not.
\<close>

fun int_of :: "pyval \<Rightarrow> int option" where
  "int_of (PyInt i) = Some i"
| "int_of (PyBool b) = Some (if b then 1 else 0)"
| "int_of (PyStr s) = None"
| "int_of PyNone = None"

text \<open>A \<^verbatim>\<open>dict\<close> keeps insertion order; assigning to a present key keeps its place.\<close>

type_synonym 'v dict = "(string \<times> 'v) list"

fun dict_update :: "string \<Rightarrow> 'v \<Rightarrow> 'v dict \<Rightarrow> 'v dict" where
  "dict_update k v [] = [(k, v)]"
| "dict_update k v ((k', v') # d) =
     (if k' = k then (k', v) # d else (k', v') # dict_update k v d)"

definition dict_keys :: "'v dict \<Rightarrow> string list" where
  "dict_keys d = map fst d"

definition TAB :: string where
  "TAB = [CHR 0x09]"

definition NL :: string where
  "NL = [CHR 0x0A]"

text \<open>\<^verbatim>\<open>sep.join(xs)\<close>\<close>

fun join :: "string \<Rightarrow> string list \<Rightarrow> string" where
  "join sep [] = []"
| "join sep [x] = x"
| "join sep (x # y # xs) = x @ sep @ join sep (y # xs)"

text \<open>\<^verbatim>\<open>"{}".format(v)\<close>: decimal digits for an \<^verbatim>\<open>int\<close>, with a minus sign when negative.\<close>

definition digit_char :: "nat \<Rightarrow> char" where
  "digit_char d = ''0123456789'' ! d"

function digits :: "nat \<Rightarrow> string" where
  "digits n = (if n < 10 then [digit_char n] else digits (n div 10) @ [digit_char (n mod 10)])"
  by pat_completeness auto
termination
  by (relation "measure (\<lambda>n. n)") auto

declare digits.simps [simp del]

definition str_int :: "int \<Rightarrow> string" where
  "str_int i = (if i < 0 then ''-'' @ digits (nat (- i)) else digits (nat i))"

fun format_val :: "pyval \<Rightarrow> string" where
  "format_val (PyInt i) = str_int i"
| "format_val (PyBool b) = (if b then ''True'' else ''False'')"
| "format_val (PyStr s) = s"
| "format_val PyNone = ''None''"

section \<open>PairsHeader\<close>

record pairs_header =
  shape :: string
  sorted_key :: string
  chromosomes :: "string list"
  genome_assembly :: "string option"
  columns :: "string list"
  additional_lines :: "string dict"

definition reserved_header_keys :: "string list" where
  "reserved_header_keys = [''shape'', ''sorted'', ''chromosomes'', ''genome_assembly'', ''columns'']"

definition reserved_columns :: "string list" where
  "reserved_columns =
     [''readID'', ''chr1'', ''position1'', ''chr2'', ''position2'', ''strand1'', ''strand2'']"

text \<open>
  \<^verbatim>\<open>for c in additional_columns: assert c not in self.columns; self.columns.append(c)\<close>:
  the membership test is against the list as it grows.
\<close>

fun append_columns :: "string list \<Rightarrow> string list \<Rightarrow> error + string list" where
  "append_columns cols [] = Inr cols"
| "append_columns cols (c # cs) =
     (if c \<in> set cols then Inl AssertionError else append_columns (cols @ [c]) cs)"

text \<open>
  \<^verbatim>\<open>for k, v in additional_lines.items(): assert k not in self.reserved_header_keys;
  self.additional_lines.update({k: v})\<close>
\<close>

fun update_lines :: "string dict \<Rightarrow> string dict \<Rightarrow> error + string dict" where
  "update_lines d [] = Inr d"
| "update_lines d ((k, v) # kvs) =
     (if k \<in> set reserved_header_keys then Inl AssertionError
      else update_lines (dict_update k v d) kvs)"

text \<open>Truth value of a string in a boolean context: non-empty.\<close>

definition truthy :: "string \<Rightarrow> bool" where
  "truthy s = (s \<noteq> [])"

text \<open>
  \<^verbatim>\<open>PairsHeader.__init__\<close>. The third assertion is
  \<^verbatim>\<open>assert sorted == 'chr1-chr2-pos1-pos2' or 'chr1-chr2-pos1-pos2'\<close>, whose second
  disjunct is a string constant taken as a truth value.
\<close>

definition PairsHeader_init ::
  "string list option \<Rightarrow> string \<Rightarrow> string \<Rightarrow> string option \<Rightarrow> string list \<Rightarrow> string dict
     \<Rightarrow> error + pairs_header" where
  "PairsHeader_init chroms shp srt assembly additional_columns addl_lines =
     (case chroms of
        None \<Rightarrow> Inl AssertionError
      | Some chrs \<Rightarrow>
          if \<not> (shp = ''U'' \<or> shp = ''L'') then Inl AssertionError
          else if \<not> (srt = ''chr1-chr2-pos1-pos2'' \<or> truthy ''chr1-chr2-pos1-pos2'')
            then Inl AssertionError
          else
            (case (if length additional_columns > 0
                   then append_columns reserved_columns additional_columns
                   else Inr reserved_columns) of
               Inl e \<Rightarrow> Inl e
             | Inr cols \<Rightarrow>
                 (case update_lines [] addl_lines of
                    Inl e \<Rightarrow> Inl e
                  | Inr al \<Rightarrow>
                      Inr \<lparr>shape = shp, sorted_key = srt, chromosomes = sort chrs,
                           genome_assembly = assembly, columns = cols,
                           additional_lines = al\<rparr>)))"

text \<open>The default arguments of \<^verbatim>\<open>__init__\<close>.\<close>

definition default_shape :: string where
  "default_shape = ''U''"

definition default_sorted :: string where
  "default_sorted = ''chr1-chr2-pos1-pos2''"

text \<open>\<^verbatim>\<open>"#{} : {}\n".format(k, v)\<close>\<close>

definition header_line :: "string \<Rightarrow> string \<Rightarrow> string" where
  "header_line k v = ''#'' @ k @ '' : '' @ v @ NL"

fun format_lines :: "string \<Rightarrow> string dict \<Rightarrow> string" where
  "format_lines str [] = str"
| "format_lines str ((k, v) # kvs) = format_lines (str @ header_line k v) kvs"

definition format_additional_lines :: "pairs_header \<Rightarrow> string" where
  "format_additional_lines h = format_lines [] (additional_lines h)"

text \<open>
  \<^verbatim>\<open>print_header\<close>. The sink \<^verbatim>\<open>fout\<close> is the text written so far and
  \<^verbatim>\<open>fout.write(s)\<close> appends to it. The last test of the source is
  \<^verbatim>\<open>additional_lines_formatted is not ''\<close>; writing the empty string appends nothing,
  so the text written is the same whichever way that identity test goes.
\<close>

definition print_header :: "pairs_header \<Rightarrow> string \<Rightarrow> string" where
  "print_header h fout =
     (let shape_text = (if shape h = ''U'' then ''upper triangle'' else ''lower triangle'');
          fout1 = fout @ header_line ''shape'' shape_text;
          fout2 = fout1 @ header_line ''sorted'' (sorted_key h);
          fout3 = fout2 @ header_line ''chromosomes'' (join '' '' (chromosomes h));
          fout4 = (case genome_assembly h of
                     None \<Rightarrow> fout3
                   | Some g \<Rightarrow> fout3 @ header_line ''genome_assembly'' g);
          fout5 = fout4 @ header_line ''columns'' (join '' '' (columns h));
          additional_lines_formatted = format_additional_lines h
      in if additional_lines_formatted \<noteq> [] then fout5 @ additional_lines_formatted
         else fout5)"

section \<open>PairsLine\<close>

text \<open>
  \<^verbatim>\<open>PairsLine.__init__\<close> assigns \<^verbatim>\<open>self.header\<close> only; every other attribute
  exists from the first assignment to it, hence the \<open>option\<close> fields.
\<close>

record pairs_line =
  header :: pairs_header
  readID :: "string option"
  optional :: "string dict option"
  chr1 :: "string option"
  chr2 :: "string option"
  pos1 :: "pyval option"
  pos2 :: "pyval option"
  strand1 :: "string option"
  strand2 :: "string option"

definition PairsLine_init :: "pairs_header \<Rightarrow> pairs_line" where
  "PairsLine_init h =
     \<lparr>header = h, readID = None, optional = None, chr1 = None, chr2 = None,
      pos1 = None, pos2 = None, strand1 = None, strand2 = None\<rparr>"

text \<open>
  A method that raises leaves the object as it was at the \<^verbatim>\<open>raise\<close>: the result is
  \<open>Inl (e, l)\<close> with the exception and the object then, or \<open>Inr l\<close> with the
  object on return.
\<close>

fun add_optional :: "pairs_line \<Rightarrow> string dict \<Rightarrow> (error \<times> pairs_line) + pairs_line" where
  "add_optional l [] = Inr l"
| "add_optional l ((k, v) # kvs) =
     (if k \<notin> set (columns (header l)) then Inl (AssertionError, l)
      else (case optional l of
              None \<Rightarrow> Inl (AttributeError, l)
            | Some d \<Rightarrow> add_optional (l\<lparr>optional := Some (dict_update k v d)\<rparr>) kvs))"

text \<open>
  \<^verbatim>\<open>isinstance(pos, int) and pos > 0\<close>: the comparison is made only on an instance of
  \<^verbatim>\<open>int\<close>.
\<close>

definition pos_ok :: "pyval \<Rightarrow> bool" where
  "pos_ok p = (case int_of p of None \<Rightarrow> False | Some i \<Rightarrow> i > 0)"

text \<open>
  The two swap tests of \<^verbatim>\<open>add\<close>, with Python's precedence (\<^verbatim>\<open>and\<close> binds tighter
  than \<^verbatim>\<open>or\<close>):
  \<^verbatim>\<open>self.header.shape == 'U' and chr1 > chr2 or (chr1 == chr2 and pos1 > pos2)\<close> and
  \<^verbatim>\<open>self.header.shape == 'L' and chr2 > chr1 or (chr1 == chr2 and pos1 < pos2)\<close>.
  Chromosome names compare as strings; the positions are integers here, the assertions
  having passed.
\<close>

definition swap_test_U :: "pairs_header \<Rightarrow> string \<Rightarrow> int \<Rightarrow> string \<Rightarrow> int \<Rightarrow> bool" where
  "swap_test_U h c1 p1 c2 p2 = ((shape h = ''U'' \<and> c1 > c2) \<or> (c1 = c2 \<and> p1 > p2))"

definition swap_test_L :: "pairs_header \<Rightarrow> string \<Rightarrow> int \<Rightarrow> string \<Rightarrow> int \<Rightarrow> bool" where
  "swap_test_L h c1 p1 c2 p2 = ((shape h = ''L'' \<and> c2 > c1) \<or> (c1 = c2 \<and> p1 < p2))"

definition add ::
  "pairs_line \<Rightarrow> string \<Rightarrow> pyval \<Rightarrow> string \<Rightarrow> pyval \<Rightarrow> string \<Rightarrow> string \<Rightarrow> string \<Rightarrow> string dict
     \<Rightarrow> (error \<times> pairs_line) + pairs_line" where
  "add l c1 p1 c2 p2 s1 s2 rid opt =
     (if c1 \<notin> set (chromosomes (header l)) then Inl (AssertionError, l)
      else if c2 \<notin> set (chromosomes (header l)) then Inl (AssertionError, l)
      else if \<not> pos_ok p1 then Inl (AssertionError, l)
      else if \<not> pos_ok p2 then Inl (AssertionError, l)
      else
        (case (let l1 = l\<lparr>readID := Some rid, optional := Some []\<rparr>
               in if length opt > 0 then add_optional l1 opt else Inr l1) of
           Inl e \<Rightarrow> Inl e
         | Inr l2 \<Rightarrow>
             (case (int_of p1, int_of p2) of
                (Some i1, Some i2) \<Rightarrow>
                  if swap_test_U (header l) c1 i1 c2 i2 then
                    Inr (l2\<lparr>chr1 := Some c2, chr2 := Some c1, pos1 := Some p2, pos2 := Some p1,
                            strand1 := Some s2, strand2 := Some s1\<rparr>)
                  else if swap_test_L (header l) c1 i1 c2 i2 then
                    Inr (l2\<lparr>chr1 := Some c2, chr2 := Some c1, pos1 := Some p2, pos2 := Some p1,
                            strand1 := Some s2, strand2 := Some s1\<rparr>)
                  else
                    Inr (l2\<lparr>chr1 := Some c1, chr2 := Some c2, pos1 := Some p1, pos2 := Some p2,
                            strand1 := Some s1, strand2 := Some s2\<rparr>)
              | _ \<Rightarrow> Inl (AssertionError, l))))"

text \<open>
  \<^verbatim>\<open>for opt in self.optional.keys(): fout.write("\t{}".format(self.optional[opt]))\<close>
\<close>

fun write_optional :: "string dict \<Rightarrow> string list \<Rightarrow> string \<Rightarrow> (error \<times> string) + string" where
  "write_optional d [] fout = Inr fout"
| "write_optional d (k # ks) fout =
     (case map_of d k of
        None \<Rightarrow> Inl (KeyError, fout)
      | Some v \<Rightarrow> write_optional d ks (fout @ TAB @ v))"

text \<open>
  \<^verbatim>\<open>printline\<close>: the seven fields joined by tabs in one write, then the optional values
  when the header has more than seven columns, then the newline.
\<close>

definition printline :: "pairs_line \<Rightarrow> string \<Rightarrow> (error \<times> string) + string" where
  "printline l fout =
     (case (readID l, chr1 l, pos1 l, chr2 l, pos2 l, strand1 l, strand2 l) of
        (Some rid, Some c1, Some p1, Some c2, Some p2, Some s1, Some s2) \<Rightarrow>
          (let fout1 = fout @ rid @ TAB @ c1 @ TAB @ format_val p1 @ TAB @ c2 @ TAB
                            @ format_val p2 @ TAB @ s1 @ TAB @ s2
           in if length (columns (header l)) > 7 then
                (case optional l of
                   None \<Rightarrow> Inl (AttributeError, fout1)
                 | Some d \<Rightarrow>
                     (case write_optional d (dict_keys d) fout1 of
                        Inl e \<Rightarrow> Inl e
                      | Inr fout2 \<Rightarrow> Inr (fout2 @ NL)))
              else Inr (fout1 @ NL))
      | _ \<Rightarrow> Inl (AttributeError, fout))"

section \<open>The order of loci as the specification words it\<close>

text \<open>
  The specification compares two loci "by the header's chromosome order, then by numeric
  position". The header's chromosome order is the place of a name in the stored list;
  \<open>index_of\<close> is the place of the first occurrence, as \<^verbatim>\<open>list.index\<close> gives it.
\<close>

fun index_of :: "'a \<Rightarrow> 'a list \<Rightarrow> nat" where
  "index_of x [] = 0"
| "index_of x (y # ys) = (if x = y then 0 else Suc (index_of x ys))"

definition spec_locus_le :: "pairs_header \<Rightarrow> string \<Rightarrow> int \<Rightarrow> string \<Rightarrow> int \<Rightarrow> bool" where
  "spec_locus_le h c1 p1 c2 p2 =
     (index_of c1 (chromosomes h) < index_of c2 (chromosomes h) \<or> (c1 = c2 \<and> p1 \<le> p2))"

text \<open>
  The header block as the specification lists it: the entries in their fixed order, each
  rendered as \<^verbatim>\<open>#key : value\<close> and a newline.
\<close>

definition spec_header_entries :: "pairs_header \<Rightarrow> (string \<times> string) list" where
  "spec_header_entries h =
     [(''shape'', if shape h = ''U'' then ''upper triangle'' else ''lower triangle''),
      (''sorted'', sorted_key h),
      (''chromosomes'', join '' '' (chromosomes h))]
     @ (case genome_assembly h of None \<Rightarrow> [] | Some g \<Rightarrow> [(''genome_assembly'', g)])
     @ [(''columns'', join '' '' (columns h))]
     @ additional_lines h"

definition spec_render_entry :: "string \<times> string \<Rightarrow> string" where
  "spec_render_entry e = ''#'' @ fst e @ '' : '' @ snd e @ [CHR 0x0A]"

section \<open>The objects of the worked scenarios\<close>

text \<open>
  \<^verbatim>\<open>PairsHeader(['chr1','chr2'], genome_assembly='hg19', additional_columns=['mismatch'])\<close>
  as constructed, and the \<^verbatim>\<open>PairsLine\<close> on it after \<^verbatim>\<open>add('chr1',1000,'chr2',3000)\<close>
  and after \<^verbatim>\<open>add_optional({'mismatch': 'chr1:1070:A>T'})\<close>.
\<close>

definition scenario_header :: pairs_header where
  "scenario_header =
     \<lparr>shape = ''U'', sorted_key = ''chr1-chr2-pos1-pos2'', chromosomes = [''chr1'', ''chr2''],
      genome_assembly = Some ''hg19'',
      columns = [''readID'', ''chr1'', ''position1'', ''chr2'', ''position2'', ''strand1'',
                 ''strand2'', ''mismatch''],
      additional_lines = []\<rparr>"

definition scenario_line :: pairs_line where
  "scenario_line =
     \<lparr>header = scenario_header, readID = Some ''.'', optional = Some [],
      chr1 = Some ''chr1'', chr2 = Some ''chr2'', pos1 = Some (PyInt 1000),
      pos2 = Some (PyInt 3000), strand1 = Some ''.'', strand2 = Some ''.''\<rparr>"

definition scenario_line_mismatch :: pairs_line where
  "scenario_line_mismatch = scenario_line\<lparr>optional := Some [(''mismatch'', ''chr1:1070:A>T'')]\<rparr>"

text \<open>The same header with \<^verbatim>\<open>shape='L'\<close>.\<close>

definition lower_header :: pairs_header where
  "lower_header = scenario_header\<lparr>shape := ''L''\<rparr>"

text \<open>The ordering example of the constructor's docstring.\<close>

definition ten_chromosomes :: "string list" where
  "ten_chromosomes = [''1'', ''11'', ''2'', ''3'', ''6'', ''X'', ''X12'', ''XXX'', ''Y'', ''_'']"

section \<open>Properties of the dictionary and of add_optional\<close>

lemma dict_update_keys: "set (dict_keys (dict_update k v d)) = insert k (set (dict_keys d))"
  by (induction d) (force simp: dict_keys_def)+

lemma map_of_dict_update: "map_of (dict_update k v d) k = Some v"
  by (induction d) auto

lemma add_optional_header:
  "add_optional l kvs = Inr l' \<Longrightarrow> header l' = header l"
  by (induction l kvs rule: add_optional.induct) (auto split: if_splits option.splits)

lemma add_optional_ok_iff:
  "optional l = Some d \<Longrightarrow>
     (\<exists>l'. add_optional l kvs = Inr l') = (set (dict_keys kvs) \<subseteq> set (columns (header l)))"
proof (induction kvs arbitrary: l d)
  case Nil
  then show ?case by (simp add: dict_keys_def)
next
  case (Cons kv kvs)
  obtain k v where kv: "kv = (k, v)" by (cases kv)
  show ?case
  proof (cases "k \<in> set (columns (header l))")
    case True
    let ?l1 = "l\<lparr>optional := Some (dict_update k v d)\<rparr>"
    have "optional ?l1 = Some (dict_update k v d)" by simp
    from Cons.IH [OF this] True Cons.prems kv show ?thesis
      by (simp add: dict_keys_def)
  next
    case False
    with kv show ?thesis by (simp add: dict_keys_def)
  qed
qed

lemma add_optional_error:
  "optional l = Some d \<Longrightarrow> add_optional l kvs = Inl (e, l') \<Longrightarrow> e = AssertionError"
proof (induction kvs arbitrary: l d)
  case Nil
  then show ?case by simp
next
  case (Cons kv kvs)
  obtain k v where kv: "kv = (k, v)" by (cases kv)
  show ?case
  proof (cases "k \<in> set (columns (header l))")
    case True
    let ?l1 = "l\<lparr>optional := Some (dict_update k v d)\<rparr>"
    have o: "optional ?l1 = Some (dict_update k v d)" by simp
    from Cons.prems kv True have "add_optional ?l1 kvs = Inl (e, l')" by simp
    from Cons.IH [OF o this] show ?thesis .
  next
    case False
    with Cons.prems kv show ?thesis by simp
  qed
qed

lemma add_optional_Inr_fields:
  "add_optional l kvs = Inr l' \<Longrightarrow>
     header l' = header l \<and> readID l' = readID l \<and> chr1 l' = chr1 l \<and> chr2 l' = chr2 l \<and>
     pos1 l' = pos1 l \<and> pos2 l' = pos2 l \<and> strand1 l' = strand1 l \<and> strand2 l' = strand2 l"
  by (induction l kvs rule: add_optional.induct) (auto split: if_splits option.splits)

lemma add_optional_Inl_fields:
  "add_optional l kvs = Inl (e, l') \<Longrightarrow>
     header l' = header l \<and> readID l' = readID l \<and> chr1 l' = chr1 l \<and> chr2 l' = chr2 l \<and>
     pos1 l' = pos1 l \<and> pos2 l' = pos2 l \<and> strand1 l' = strand1 l \<and> strand2 l' = strand2 l"
  by (induction l kvs rule: add_optional.induct) (auto split: if_splits option.splits)

lemma map_of_dict_update_upd: "map_of (dict_update k v d) = (map_of d)(k \<mapsto> v)"
  by (induction d) (auto simp: fun_upd_twist)

lemma map_of_fold_dict_update:
  "distinct (dict_keys kvs) \<Longrightarrow>
     map_of (fold (\<lambda>(k, v). dict_update k v) kvs d) = map_of d ++ map_of kvs"
proof (induction kvs arbitrary: d)
  case Nil
  then show ?case by simp
next
  case (Cons kv kvs)
  obtain k v where kv: "kv = (k, v)" by (cases kv)
  from Cons.prems kv have k: "k \<notin> fst ` set kvs" and d: "distinct (dict_keys kvs)"
    by (simp_all add: dict_keys_def)
  from k have n: "map_of kvs k = None" by (simp add: map_of_eq_None_iff)
  have "map_of (fold (\<lambda>(k, v). dict_update k v) (kv # kvs) d)
          = (map_of d)(k \<mapsto> v) ++ map_of kvs"
    unfolding kv using Cons.IH [OF d, of "dict_update k v d"]
    by (simp only: fold_simps prod.case map_of_dict_update_upd)
  also have "\<dots> = map_of d ++ (map_of kvs)(k \<mapsto> v)"
    using n by (auto simp: map_add_def fun_eq_iff split: option.splits)
  also have "\<dots> = map_of d ++ map_of (kv # kvs)"
    unfolding kv by (simp only: map_of.simps fst_conv snd_conv)
  finally show ?case .
qed

lemma add_optional_stores:
  "optional l = Some d \<Longrightarrow> set (dict_keys kvs) \<subseteq> set (columns (header l)) \<Longrightarrow>
     add_optional l kvs = Inr (l\<lparr>optional := Some (fold (\<lambda>(k, v). dict_update k v) kvs d)\<rparr>)"
proof (induction kvs arbitrary: l d)
  case Nil
  then show ?case by simp
next
  case (Cons kv kvs)
  obtain k v where kv: "kv = (k, v)" by (cases kv)
  let ?l1 = "l\<lparr>optional := Some (dict_update k v d)\<rparr>"
  from Cons.prems(2) kv have k: "k \<in> set (columns (header l))"
    and ks: "set (dict_keys kvs) \<subseteq> set (columns (header ?l1))"
    by (simp_all add: dict_keys_def)
  have o: "optional ?l1 = Some (dict_update k v d)" by simp
  from Cons.IH [OF o ks] k kv Cons.prems(1) show ?case by simp
qed

lemma add_optional_guard:
  "(if length opt > 0 then add_optional l opt else Inr l) = add_optional l opt"
  by (cases opt) simp_all

section \<open>Properties of add\<close>

lemma pos_ok_iff: "pos_ok p = (\<exists>i. int_of p = Some i \<and> 0 < i)"
  by (simp add: pos_ok_def split: option.splits)

lemma pos_ok_cases:
  "pos_ok (PyInt i) = (0 < i)" "pos_ok (PyBool b) = b" "pos_ok (PyStr s) = False"
  "pos_ok PyNone = False"
  by (simp_all add: pos_ok_def)

lemma add_checks_fail:
  "c1 \<notin> set (chromosomes (header l)) \<or> c2 \<notin> set (chromosomes (header l)) \<or>
     \<not> pos_ok p1 \<or> \<not> pos_ok p2 \<Longrightarrow>
   add l c1 p1 c2 p2 s1 s2 rid opt = Inl (AssertionError, l)"
  by (auto simp: add_def)

lemma add_checks_pass:
  assumes "c1 \<in> set (chromosomes (header l))" "c2 \<in> set (chromosomes (header l))"
    and "int_of p1 = Some i1" "0 < i1" "int_of p2 = Some i2" "0 < i2"
  shows "add l c1 p1 c2 p2 s1 s2 rid opt =
     (case add_optional (l\<lparr>readID := Some rid, optional := Some []\<rparr>) opt of
        Inl e \<Rightarrow> Inl e
      | Inr l2 \<Rightarrow>
          Inr (if swap_test_U (header l) c1 i1 c2 i2 \<or> swap_test_L (header l) c1 i1 c2 i2
               then l2\<lparr>chr1 := Some c2, chr2 := Some c1, pos1 := Some p2, pos2 := Some p1,
                       strand1 := Some s2, strand2 := Some s1\<rparr>
               else l2\<lparr>chr1 := Some c1, chr2 := Some c2, pos1 := Some p1, pos2 := Some p2,
                       strand1 := Some s1, strand2 := Some s2\<rparr>))"
  using assms by (simp add: add_def pos_ok_def add_optional_guard Let_def split: sum.splits)

text \<open>
  What the two swap tests do. With both mates on one chromosome and different positions one
  of the two tests holds whatever the shape, so the mates are exchanged under either shape.
  With mates on different chromosomes, and the chromosome list sorted as the constructor
  leaves it, the stored mates follow the shape.
\<close>

lemma index_of_sorted:
  fixes xs :: "'a::linorder list"
  assumes "sorted xs" "a \<in> set xs" "b \<in> set xs"
  shows "(index_of a xs < index_of b xs) = (a < b)"
  using assms
proof (induction xs)
  case Nil
  then show ?case by simp
next
  case (Cons x xs)
  from Cons.prems(1) have le: "\<forall>y \<in> set xs. x \<le> y" and s: "sorted xs" by simp_all
  show ?case
  proof (cases "a = x")
    case True
    show ?thesis
    proof (cases "b = x")
      case True
      with \<open>a = x\<close> show ?thesis by simp
    next
      case False
      with Cons.prems(3) le have "x \<le> b" by auto
      with False True show ?thesis by simp
    qed
  next
    case False
    with Cons.prems(2) have a: "a \<in> set xs" by simp
    with le have xa: "x \<le> a" by blast
    show ?thesis
    proof (cases "b = x")
      case True
      with xa False show ?thesis by (simp add: not_less)
    next
      case bx: False
      with Cons.prems(3) have "b \<in> set xs" by simp
      from Cons.IH [OF s a this] False bx show ?thesis by simp
    qed
  qed
qed

lemma add_same_chromosome_always_swaps:
  assumes "c \<in> set (chromosomes (header l))"
    and "int_of p1 = Some i1" "0 < i1" "int_of p2 = Some i2" "0 < i2" "i1 \<noteq> i2"
    and "set (dict_keys opt) \<subseteq> set (columns (header l))"
  shows "\<exists>l'. add l c p1 c p2 s1 s2 rid opt = Inr l' \<and>
           chr1 l' = Some c \<and> pos1 l' = Some p2 \<and> strand1 l' = Some s2 \<and>
           chr2 l' = Some c \<and> pos2 l' = Some p1 \<and> strand2 l' = Some s1"
proof -
  let ?l1 = "l\<lparr>readID := Some rid, optional := Some []\<rparr>"
  have "optional ?l1 = Some []" by simp
  from add_optional_ok_iff [OF this, of opt] assms(7)
  obtain l2 where l2: "add_optional ?l1 opt = Inr l2" by auto
  from assms(6) have "swap_test_U (header l) c i1 c i2 \<or> swap_test_L (header l) c i1 c i2"
    by (auto simp: swap_test_U_def swap_test_L_def)
  with add_checks_pass [OF assms(1) assms(1) assms(2-5)] l2 show ?thesis by simp
qed

lemma add_distinct_chromosomes_ordered:
  assumes "c1 \<in> set (chromosomes (header l))" "c2 \<in> set (chromosomes (header l))"
    and "int_of p1 = Some i1" "0 < i1" "int_of p2 = Some i2" "0 < i2" "c1 \<noteq> c2"
    and "set (dict_keys opt) \<subseteq> set (columns (header l))"
    and "sorted (chromosomes (header l))"
  shows "\<exists>l' a b. add l c1 p1 c2 p2 s1 s2 rid opt = Inr l' \<and> chr1 l' = Some a \<and> chr2 l' = Some b \<and>
           (shape (header l) = ''U'' \<longrightarrow>
              index_of a (chromosomes (header l)) < index_of b (chromosomes (header l))) \<and>
           (shape (header l) = ''L'' \<longrightarrow>
              index_of b (chromosomes (header l)) < index_of a (chromosomes (header l)))"
proof -
  let ?l1 = "l\<lparr>readID := Some rid, optional := Some []\<rparr>"
  have "optional ?l1 = Some []" by simp
  from add_optional_ok_iff [OF this, of opt] assms(8)
  obtain l2 where l2: "add_optional ?l1 opt = Inr l2" by auto
  have lt: "(index_of c1 (chromosomes (header l)) < index_of c2 (chromosomes (header l))) = (c1 < c2)"
    "(index_of c2 (chromosomes (header l)) < index_of c1 (chromosomes (header l))) = (c2 < c1)"
    using assms(1,2,9) by (simp_all add: index_of_sorted)
  from assms(7) have "c1 < c2 \<or> c2 < c1" by auto
  with add_checks_pass [OF assms(1-6)] l2 assms(7) lt show ?thesis
    by (auto simp: swap_test_U_def swap_test_L_def)
qed

section \<open>Properties of the constructor\<close>

lemma append_columns_Inr:
  "append_columns cols cs = Inr cols' \<Longrightarrow> cols' = cols @ cs"
  by (induction cols cs rule: append_columns.induct) (auto split: if_splits)

lemma append_columns_ok_iff:
  "(\<exists>cols'. append_columns cols cs = Inr cols') = (distinct cs \<and> set cs \<inter> set cols = {})"
  by (induction cols cs rule: append_columns.induct) auto

lemma append_columns_error: "append_columns cols cs = Inl e \<Longrightarrow> e = AssertionError"
  by (induction cols cs rule: append_columns.induct) (auto split: if_splits)

lemma update_lines_ok_iff:
  "(\<exists>al. update_lines d kvs = Inr al) = (set (dict_keys kvs) \<inter> set reserved_header_keys = {})"
  by (induction d kvs rule: update_lines.induct) (auto simp: dict_keys_def)

lemma update_lines_error: "update_lines d kvs = Inl e \<Longrightarrow> e = AssertionError"
  by (induction d kvs rule: update_lines.induct) (auto split: if_splits)

lemma columns_guard:
  "(if length ac > 0 then append_columns cols ac else Inr cols) = append_columns cols ac"
  by (cases ac) simp_all

lemma PairsHeader_init_Some:
  "PairsHeader_init (Some chrs) shp srt ga ac al =
     (if \<not> (shp = ''U'' \<or> shp = ''L'') then Inl AssertionError
      else case append_columns reserved_columns ac of
             Inl e \<Rightarrow> Inl e
           | Inr cols \<Rightarrow>
               (case update_lines [] al of
                  Inl e \<Rightarrow> Inl e
                | Inr lines \<Rightarrow>
                    Inr \<lparr>shape = shp, sorted_key = srt, chromosomes = sort chrs,
                         genome_assembly = ga, columns = cols, additional_lines = lines\<rparr>))"
  by (simp add: PairsHeader_init_def truthy_def columns_guard)

lemma PairsHeader_init_succeeds_iff:
  "(\<exists>h. PairsHeader_init chroms shp srt ga ac al = Inr h) =
     (chroms \<noteq> None \<and> (shp = ''U'' \<or> shp = ''L'') \<and> set ac \<inter> set reserved_columns = {} \<and>
      distinct ac \<and> set (dict_keys al) \<inter> set reserved_header_keys = {})"
proof (cases chroms)
  case None
  then show ?thesis by (simp add: PairsHeader_init_def)
next
  case (Some chrs)
  show ?thesis
    using append_columns_ok_iff [of reserved_columns ac] update_lines_ok_iff [of "[]" al]
    unfolding Some PairsHeader_init_Some
    by (auto split: sum.splits)
qed

lemma PairsHeader_init_fields:
  assumes "PairsHeader_init chroms shp srt ga ac al = Inr h"
  shows "\<exists>chrs. chroms = Some chrs \<and> chromosomes h = sort chrs" and "shape h = shp"
    and "sorted_key h = srt" and "genome_assembly h = ga" and "columns h = reserved_columns @ ac"
proof -
  from assms obtain chrs where c: "chroms = Some chrs"
    by (cases chroms) (simp_all add: PairsHeader_init_def)
  from assms [unfolded c PairsHeader_init_Some]
  obtain cols lines where
    cols: "append_columns reserved_columns ac = Inr cols" and
    h: "h = \<lparr>shape = shp, sorted_key = srt, chromosomes = sort chrs,
              genome_assembly = ga, columns = cols, additional_lines = lines\<rparr>"
    by (auto split: if_splits sum.splits)
  from c h show "\<exists>chrs. chroms = Some chrs \<and> chromosomes h = sort chrs" by simp
  from h show "shape h = shp" "sorted_key h = srt" "genome_assembly h = ga" by simp_all
  from h append_columns_Inr [OF cols] show "columns h = reserved_columns @ ac" by simp
qed

lemma PairsHeader_init_error:
  "PairsHeader_init chroms shp srt ga ac al = Inl e \<Longrightarrow> e = AssertionError"
  by (cases chroms)
     (auto simp: PairsHeader_init_def columns_guard
           split: if_splits sum.splits dest: append_columns_error update_lines_error)

section \<open>The worked scenario, step by step\<close>

lemma scenario_construction:
  "PairsHeader_init (Some [''chr1'', ''chr2'']) default_shape default_sorted (Some ''hg19'')
     [''mismatch''] [] = Inr scenario_header"
  by (simp add: PairsHeader_init_def default_shape_def default_sorted_def truthy_def
        reserved_columns_def scenario_header_def)

lemma lower_construction:
  "PairsHeader_init (Some [''chr1'', ''chr2'']) ''L'' default_sorted (Some ''hg19'')
     [''mismatch''] [] = Inr lower_header"
  by (simp add: PairsHeader_init_def default_sorted_def truthy_def reserved_columns_def
        lower_header_def scenario_header_def)

lemma scenario_add:
  "add (PairsLine_init scenario_header) ''chr1'' (PyInt 1000) ''chr2'' (PyInt 3000)
     ''.'' ''.'' ''.'' [] = Inr scenario_line"
  by (simp add: add_def PairsLine_init_def scenario_header_def scenario_line_def pos_ok_def
        swap_test_U_def swap_test_L_def)

lemma scenario_add_optional:
  "add_optional scenario_line [(''mismatch'', ''chr1:1070:A>T'')] = Inr scenario_line_mismatch"
  by (simp add: scenario_line_mismatch_def scenario_line_def scenario_header_def)

lemma scenario_printline:
  "printline scenario_line [] =
     Inr (''.'' @ TAB @ ''chr1'' @ TAB @ ''1000'' @ TAB @ ''chr2'' @ TAB @ ''3000'' @ TAB @ ''.''
          @ TAB @ ''.'' @ NL)"
  by (simp add: printline_def scenario_line_def scenario_header_def dict_keys_def str_int_def
        digits.simps digit_char_def TAB_def NL_def)

lemma scenario_printline_mismatch:
  "printline scenario_line_mismatch [] =
     Inr (''.'' @ TAB @ ''chr1'' @ TAB @ ''1000'' @ TAB @ ''chr2'' @ TAB @ ''3000'' @ TAB @ ''.''
          @ TAB @ ''.'' @ TAB @ ''chr1:1070:A>T'' @ NL)"
  by (simp add: printline_def scenario_line_mismatch_def scenario_line_def scenario_header_def
        dict_keys_def str_int_def digits.simps digit_char_def TAB_def NL_def)

lemma format_lines_concat:
  "format_lines str kvs = str @ concat (map spec_render_entry kvs)"
  by (induction str kvs rule: format_lines.induct)
     (simp_all add: header_line_def spec_render_entry_def NL_def)

section \<open>The claims\<close>

subsection \<open>C1: the order of the stored mates\<close>

text \<open>
  Claim C1 says that after \<^verbatim>\<open>add\<close> the stored first locus is less-or-equal to the second
  (header's chromosome order, then position) when the shape is upper, and greater-or-equal
  when it is lower. The code does not do that for two mates on one chromosome: in
  \<^verbatim>\<open>A and B or (C and D)\<close> the position test \<^verbatim>\<open>(C and D)\<close> is not under the shape test.
  On the upper-triangle header of the scenario, the call
  \<^verbatim>\<open>add('chr2',4000,'chr2',5000,'+','-', optional={'mismatch': 'chr2:4916:G>C, chr2:5106:C>T'})\<close>
  of the module's own \<^verbatim>\<open>__main__\<close> stores position 5000 before position 4000;
  on the lower-triangle header, \<^verbatim>\<open>add('chr1',5000,'chr1',4000,'+','-')\<close> stores 4000
  before 5000.
\<close>

theorem add_same_chromosome_misordered:
  "add (PairsLine_init scenario_header) ''chr2'' (PyInt 4000) ''chr2'' (PyInt 5000)
       ''+'' ''-'' ''.'' [(''mismatch'', ''chr2:4916:G>C, chr2:5106:C>T'')] =
     Inr \<lparr>header = scenario_header, readID = Some ''.'',
          optional = Some [(''mismatch'', ''chr2:4916:G>C, chr2:5106:C>T'')],
          chr1 = Some ''chr2'', chr2 = Some ''chr2'', pos1 = Some (PyInt 5000),
          pos2 = Some (PyInt 4000), strand1 = Some ''-'', strand2 = Some ''+''\<rparr> \<and>
   shape scenario_header = ''U'' \<and>
   \<not> spec_locus_le scenario_header ''chr2'' 5000 ''chr2'' 4000 \<and>
   add (PairsLine_init lower_header) ''chr1'' (PyInt 5000) ''chr1'' (PyInt 4000)
       ''+'' ''-'' ''.'' [] =
     Inr \<lparr>header = lower_header, readID = Some ''.'', optional = Some [],
          chr1 = Some ''chr1'', chr2 = Some ''chr1'', pos1 = Some (PyInt 4000),
          pos2 = Some (PyInt 5000), strand1 = Some ''-'', strand2 = Some ''+''\<rparr> \<and>
   shape lower_header = ''L'' \<and>
   \<not> spec_locus_le lower_header ''chr1'' 5000 ''chr1'' 4000"
  by (simp add: add_def PairsLine_init_def scenario_header_def lower_header_def pos_ok_def
        swap_test_U_def swap_test_L_def spec_locus_le_def)

subsection \<open>C2: equal loci are not swapped\<close>

text \<open>
  Claim C2: when \<^verbatim>\<open>chr1 == chr2\<close> and \<^verbatim>\<open>pos1 == pos2\<close>, a valid call of \<^verbatim>\<open>add\<close>
  returns and stores mate 1 as \<open>(chr1, pos1, strand1)\<close> and mate 2 as
  \<open>(chr2, pos2, strand2)\<close>, as supplied, whatever the shape of the header.
\<close>

theorem add_tie_keeps_mate_order:
  assumes "c \<in> set (chromosomes (header l))" and "pos_ok p"
    and "set (dict_keys opt) \<subseteq> set (columns (header l))"
  shows "\<exists>l'. add l c p c p s1 s2 rid opt = Inr l' \<and>
           chr1 l' = Some c \<and> pos1 l' = Some p \<and> strand1 l' = Some s1 \<and>
           chr2 l' = Some c \<and> pos2 l' = Some p \<and> strand2 l' = Some s2"
proof -
  from assms(2) obtain i where i: "int_of p = Some i" "0 < i"
    by (auto simp: pos_ok_iff)
  let ?l1 = "l\<lparr>readID := Some rid, optional := Some []\<rparr>"
  have "optional ?l1 = Some []" by simp
  from add_optional_ok_iff [OF this, of opt] assms(3)
  obtain l2 where l2: "add_optional ?l1 opt = Inr l2" by auto
  have no_swap: "\<not> swap_test_U (header l) c i c i" "\<not> swap_test_L (header l) c i c i"
    by (simp_all add: swap_test_U_def swap_test_L_def)
  have "add l c p c p s1 s2 rid opt =
          Inr (l2\<lparr>chr1 := Some c, chr2 := Some c, pos1 := Some p, pos2 := Some p,
                  strand1 := Some s1, strand2 := Some s2\<rparr>)"
    using add_checks_pass [OF assms(1) assms(1) i i] l2 no_swap by simp
  then show ?thesis by simp
qed

text \<open>
An instance on the lower-triangle header.
\<close>

theorem add_tie_keeps_mate_order_witness:
  "''chr1'' \<in> set (chromosomes (header (PairsLine_init lower_header))) \<and> pos_ok (PyInt 1000) \<and>
   set (dict_keys ([] :: string dict)) \<subseteq> set (columns (header (PairsLine_init lower_header))) \<and>
   (\<exists>l'. add (PairsLine_init lower_header) ''chr1'' (PyInt 1000) ''chr1'' (PyInt 1000)
            ''+'' ''-'' ''.'' [] = Inr l' \<and>
          chr1 l' = Some ''chr1'' \<and> pos1 l' = Some (PyInt 1000) \<and> strand1 l' = Some ''+'' \<and>
          chr2 l' = Some ''chr1'' \<and> pos2 l' = Some (PyInt 1000) \<and> strand2 l' = Some ''-'')"
proof -
  have h1: "''chr1'' \<in> set (chromosomes (header (PairsLine_init lower_header)))"
    by (simp add: PairsLine_init_def lower_header_def scenario_header_def)
  have h2: "pos_ok (PyInt 1000)" by (simp add: pos_ok_def)
  have h3: "set (dict_keys ([] :: string dict))
              \<subseteq> set (columns (header (PairsLine_init lower_header)))"
    by (simp add: dict_keys_def)
  from add_tie_keeps_mate_order [OF h1 h2 h3, of "''+''" "''-''" "''.''"] h1 h2 h3
  show ?thesis by blast
qed

subsection \<open>C3: the lines of the end-to-end scenario\<close>

text \<open>
  Claim C3 gives the first line written as ending in a tab and no newline. The code writes
  the seven fields, one tab and value per entry of the (empty) optional mapping, and then
  the newline: the first line is not the one claimed.
\<close>

theorem scenario_first_line_has_no_trailing_tab:
  "PairsHeader_init (Some [''chr1'', ''chr2'']) default_shape default_sorted (Some ''hg19'')
     [''mismatch''] [] = Inr scenario_header \<and>
   add (PairsLine_init scenario_header) ''chr1'' (PyInt 1000) ''chr2'' (PyInt 3000)
     ''.'' ''.'' ''.'' [] = Inr scenario_line \<and>
   printline scenario_line [] \<noteq>
     Inr (''.'' @ TAB @ ''chr1'' @ TAB @ ''1000'' @ TAB @ ''chr2'' @ TAB @ ''3000'' @ TAB @ ''.''
          @ TAB @ ''.'' @ TAB)"
  by (simp add: scenario_construction scenario_add scenario_printline TAB_def NL_def)

text \<open>
  Claim C3, amended: on the header of the scenario, after \<^verbatim>\<open>add('chr1',1000,'chr2',3000)\<close>
  the optional mapping is empty and \<^verbatim>\<open>printline\<close> writes
  \<^verbatim>\<open>.\tchr1\t1000\tchr2\t3000\t.\t.\n\<close>; after
  \<^verbatim>\<open>add_optional({'mismatch':'chr1:1070:A>T'})\<close> it writes
  \<^verbatim>\<open>.\tchr1\t1000\tchr2\t3000\t.\t.\tchr1:1070:A>T\n\<close>.
\<close>

theorem scenario_lines:
  "PairsHeader_init (Some [''chr1'', ''chr2'']) default_shape default_sorted (Some ''hg19'')
     [''mismatch''] [] = Inr scenario_header \<and>
   add (PairsLine_init scenario_header) ''chr1'' (PyInt 1000) ''chr2'' (PyInt 3000)
     ''.'' ''.'' ''.'' [] = Inr scenario_line \<and>
   optional scenario_line = Some [] \<and>
   printline scenario_line [] =
     Inr (''.'' @ TAB @ ''chr1'' @ TAB @ ''1000'' @ TAB @ ''chr2'' @ TAB @ ''3000'' @ TAB @ ''.''
          @ TAB @ ''.'' @ NL) \<and>
   add_optional scenario_line [(''mismatch'', ''chr1:1070:A>T'')] = Inr scenario_line_mismatch \<and>
   printline scenario_line_mismatch [] =
     Inr (''.'' @ TAB @ ''chr1'' @ TAB @ ''1000'' @ TAB @ ''chr2'' @ TAB @ ''3000'' @ TAB @ ''.''
          @ TAB @ ''.'' @ TAB @ ''chr1:1070:A>T'' @ NL)"
  using scenario_construction scenario_add scenario_add_optional scenario_printline
    scenario_printline_mismatch
  by (simp add: scenario_line_def)

subsection \<open>C4: any sort key is accepted\<close>

text \<open>
  Claim C4: the constructor accepts every value of the sort key. With the other arguments
  valid it succeeds and stores the key given, and whether it succeeds does not depend on
  the key.
\<close>

theorem sortKey_accepted_unconditionally:
  "(chroms \<noteq> None \<and> (shp = ''U'' \<or> shp = ''L'') \<and> set ac \<inter> set reserved_columns = {} \<and>
      distinct ac \<and> set (dict_keys al) \<inter> set reserved_header_keys = {} \<longrightarrow>
      (\<exists>h. PairsHeader_init chroms shp s ga ac al = Inr h \<and> sorted_key h = s)) \<and>
   ((\<exists>h. PairsHeader_init chroms shp s ga ac al = Inr h) =
      (\<exists>h. PairsHeader_init chroms shp s' ga ac al = Inr h))"
proof -
  have "(\<exists>h. PairsHeader_init chroms shp s ga ac al = Inr h) =
      (\<exists>h. PairsHeader_init chroms shp s' ga ac al = Inr h)"
    by (simp only: PairsHeader_init_succeeds_iff)
  moreover have "\<exists>h. PairsHeader_init chroms shp s ga ac al = Inr h \<and> sorted_key h = s"
    if "chroms \<noteq> None \<and> (shp = ''U'' \<or> shp = ''L'') \<and> set ac \<inter> set reserved_columns = {} \<and>
      distinct ac \<and> set (dict_keys al) \<inter> set reserved_header_keys = {}"
  proof -
    from that obtain h where h: "PairsHeader_init chroms shp s ga ac al = Inr h"
      using PairsHeader_init_succeeds_iff [of chroms shp s ga ac al] by blast
    from PairsHeader_init_fields(3) [OF h] h show ?thesis by blast
  qed
  ultimately show ?thesis by blast
qed

text \<open>
An instance with a key that is neither of the two documented ones.
\<close>

theorem sortKey_accepted_unconditionally_witness:
  "\<exists>h. PairsHeader_init (Some [''chr1'']) ''U'' ''by-read-name'' None [] [] = Inr h \<and>
        sorted_key h = ''by-read-name''"
  using sortKey_accepted_unconditionally
    [of "Some [''chr1'']" "''U''" "[]" "[]" "''by-read-name''" None "''by-read-name''"]
  by (simp add: dict_keys_def)

subsection \<open>C5: add_optional checks membership in the column list\<close>

text \<open>
  Claim C5 says that \<^verbatim>\<open>add_optional\<close> raises the assertion error exactly when some key
  is not a column of the header, and that an entry with a reserved column name is accepted
  and stored. That needs the record to have its optional mapping, which only \<^verbatim>\<open>add\<close>
  assigns: on a record fresh from \<^verbatim>\<open>PairsLine(header)\<close> the reserved name \<^verbatim>\<open>chr1\<close>
  is not stored but raises \<^verbatim>\<open>AttributeError\<close>, and so does a mapping with \<^verbatim>\<open>chr1\<close>
  followed by an unknown key, although a key of it is not a column.
\<close>

theorem add_optional_on_fresh_record:
  "optional (PairsLine_init scenario_header) = None \<and>
   ''chr1'' \<in> set reserved_columns \<and>
   ''chr1'' \<in> set (columns (header (PairsLine_init scenario_header))) \<and>
   add_optional (PairsLine_init scenario_header) [(''chr1'', ''x'')]
     = Inl (AttributeError, PairsLine_init scenario_header) \<and>
   ''bogus'' \<notin> set (columns (header (PairsLine_init scenario_header))) \<and>
   add_optional (PairsLine_init scenario_header) [(''chr1'', ''x''), (''bogus'', ''y'')]
     = Inl (AttributeError, PairsLine_init scenario_header)"
  by (simp add: PairsLine_init_def scenario_header_def reserved_columns_def)

text \<open>
  Claim C5, amended: on a record that has its optional mapping (any record after
  \<^verbatim>\<open>add\<close>), \<^verbatim>\<open>add_optional\<close> raises the assertion error exactly when some key of the
  mapping given is not in the header's columns, and returns exactly when all are. When it
  returns, the record is the one before with every entry of the mapping assigned in turn
  to the optional mapping; so it is in particular, on a header built by the constructor,
  for a mapping whose keys are among the seven reserved column names. The optional mapping
  then holds each entry given and, for every other key, what it held before.
\<close>

theorem add_optional_fails_iff:
  assumes "optional l = Some d"
  shows "((\<exists>l'. add_optional l kvs = Inl (AssertionError, l')) =
            (\<exists>k \<in> set (dict_keys kvs). k \<notin> set (columns (header l)))) \<and>
         ((\<exists>l'. add_optional l kvs = Inr l') =
            (set (dict_keys kvs) \<subseteq> set (columns (header l)))) \<and>
         (set (dict_keys kvs) \<subseteq> set (columns (header l)) \<longrightarrow>
            add_optional l kvs =
              Inr (l\<lparr>optional := Some (fold (\<lambda>(k, v). dict_update k v) kvs d)\<rparr>)) \<and>
         (PairsHeader_init chroms shp srt ga ac al = Inr (header l) \<and>
          set (dict_keys kvs) \<subseteq> set reserved_columns \<longrightarrow>
            add_optional l kvs =
              Inr (l\<lparr>optional := Some (fold (\<lambda>(k, v). dict_update k v) kvs d)\<rparr>)) \<and>
         (distinct (dict_keys kvs) \<longrightarrow>
            map_of (fold (\<lambda>(k, v). dict_update k v) kvs d) = map_of d ++ map_of kvs) \<and>
         (distinct (dict_keys kvs) \<and> (k, v) \<in> set kvs \<longrightarrow>
            map_of (fold (\<lambda>(k, v). dict_update k v) kvs d) k = Some v)"
proof -
  let ?d' = "fold (\<lambda>(k, v). dict_update k v) kvs d"
  have ok: "(\<exists>l'. add_optional l kvs = Inr l') =
              (set (dict_keys kvs) \<subseteq> set (columns (header l)))"
    by (rule add_optional_ok_iff [OF assms])
  have "(\<exists>l'. add_optional l kvs = Inl (AssertionError, l')) =
          (\<not> (\<exists>l'. add_optional l kvs = Inr l'))"
  proof (cases "add_optional l kvs")
    case (Inl p)
    obtain e l' where p: "p = (e, l')" by (cases p)
    from add_optional_error [OF assms Inl [unfolded p]] Inl p show ?thesis by simp
  next
    case (Inr l')
    then show ?thesis by simp
  qed
  with ok have fails: "(\<exists>l'. add_optional l kvs = Inl (AssertionError, l')) =
            (\<exists>k \<in> set (dict_keys kvs). k \<notin> set (columns (header l)))"
    by blast
  have stores: "add_optional l kvs = Inr (l\<lparr>optional := Some ?d'\<rparr>)"
    if "set (dict_keys kvs) \<subseteq> set (columns (header l))"
    using assms that by (rule add_optional_stores)
  have reserved: "add_optional l kvs = Inr (l\<lparr>optional := Some ?d'\<rparr>)"
    if h: "PairsHeader_init chroms shp srt ga ac al = Inr (header l)"
      and r: "set (dict_keys kvs) \<subseteq> set reserved_columns"
  proof -
    from PairsHeader_init_fields(5) [OF h] r
    have "set (dict_keys kvs) \<subseteq> set (columns (header l))" by auto
    then show ?thesis by (rule stores)
  qed
  have maps: "map_of ?d' = map_of d ++ map_of kvs" if "distinct (dict_keys kvs)"
    using that by (rule map_of_fold_dict_update)
  have entry: "map_of ?d' k = Some v" if dk: "distinct (dict_keys kvs)" and kv: "(k, v) \<in> set kvs"
  proof -
    from dk kv have "map_of kvs k = Some v" by (simp add: dict_keys_def)
    with maps [OF dk] show ?thesis by (simp add: map_add_def)
  qed
  from ok fails stores reserved maps entry show ?thesis by blast
qed

text \<open>
  A mapping with an unknown key is refused; a mapping with the reserved name \<^verbatim>\<open>chr1\<close>
  and the additional column, and one with two reserved names, are stored entry by entry.
\<close>

theorem add_optional_fails_iff_witness:
  "optional scenario_line = Some [] \<and>
   (\<exists>l'. add_optional scenario_line [(''chr1'', ''a''), (''bogus'', ''x'')]
            = Inl (AssertionError, l')) \<and>
   add_optional scenario_line [(''chr1'', ''a''), (''mismatch'', ''b'')]
     = Inr (scenario_line\<lparr>optional := Some [(''chr1'', ''a''), (''mismatch'', ''b'')]\<rparr>) \<and>
   add_optional scenario_line [(''readID'', ''r''), (''strand2'', ''-'')]
     = Inr (scenario_line\<lparr>optional := Some [(''readID'', ''r''), (''strand2'', ''-'')]\<rparr>) \<and>
   map_of (fold (\<lambda>(k, v). dict_update k v) [(''chr1'', ''a''), (''mismatch'', ''b'')] [])
     ''mismatch'' = Some ''b''"
proof -
  let ?bad = "[(''chr1'', ''a''), (''bogus'', ''x'')]"
  let ?two = "[(''chr1'', ''a''), (''mismatch'', ''b'')]"
  let ?res = "[(''readID'', ''r''), (''strand2'', ''-'')]"
  have o: "optional scenario_line = Some []" by (simp add: scenario_line_def)
  have h: "PairsHeader_init (Some [''chr1'', ''chr2'']) default_shape default_sorted
             (Some ''hg19'') [''mismatch''] [] = Inr (header scenario_line)"
    by (simp add: scenario_construction scenario_line_def)
  have cols: "columns (header scenario_line) =
      [''readID'', ''chr1'', ''position1'', ''chr2'', ''position2'', ''strand1'', ''strand2'',
       ''mismatch'']"
    by (simp add: scenario_line_def scenario_header_def)
  have bad: "\<exists>k \<in> set (dict_keys ?bad). k \<notin> set (columns (header scenario_line))"
    by (simp add: cols dict_keys_def)
  have two: "set (dict_keys ?two) \<subseteq> set (columns (header scenario_line))"
    by (simp add: cols dict_keys_def)
  have res: "PairsHeader_init (Some [''chr1'', ''chr2'']) default_shape default_sorted
             (Some ''hg19'') [''mismatch''] [] = Inr (header scenario_line) \<and>
           set (dict_keys ?res) \<subseteq> set reserved_columns"
    using h by (simp add: dict_keys_def reserved_columns_def)
  have dist: "distinct (dict_keys ?two) \<and> (''mismatch'', ''b'') \<in> set ?two"
    by (simp add: dict_keys_def)
  note t = add_optional_fails_iff [OF o]
  from t [of ?bad, THEN conjunct1] bad
  have "\<exists>l'. add_optional scenario_line ?bad = Inl (AssertionError, l')" by blast
  moreover
  from t [of ?two, THEN conjunct2, THEN conjunct2, THEN conjunct1, THEN mp, OF two]
  have "add_optional scenario_line ?two = Inr (scenario_line\<lparr>optional := Some ?two\<rparr>)"
    by simp
  moreover
  from t [of ?res "Some [''chr1'', ''chr2'']" default_shape default_sorted "Some ''hg19''"
      "[''mismatch'']" "[]", THEN conjunct2, THEN conjunct2, THEN conjunct2, THEN conjunct1,
      THEN mp, OF res]
  have "add_optional scenario_line ?res = Inr (scenario_line\<lparr>optional := Some ?res\<rparr>)"
    by simp
  moreover
  from t [of ?two _ _ _ _ _ _ "''mismatch''" "''b''", THEN conjunct2, THEN conjunct2,
      THEN conjunct2, THEN conjunct2, THEN conjunct2, THEN mp, OF dist]
  have "map_of (fold (\<lambda>(k, v). dict_update k v) ?two []) ''mismatch'' = Some ''b''" .
  ultimately show ?thesis using o by blast
qed

subsection \<open>C6: when add raises\<close>

text \<open>
  Claim C6 says that \<^verbatim>\<open>add\<close> does not raise once both chromosomes are known and both
  positions are positive integers. It does when the optional mapping has a key that is not
  a column of the header: the four constraints hold here and the call raises.
\<close>

theorem add_raises_on_unknown_optional_key:
  "''chr1'' \<in> set (chromosomes (header scenario_line)) \<and> pos_ok (PyInt 1) \<and>
   add scenario_line ''chr1'' (PyInt 1) ''chr1'' (PyInt 1) ''.'' ''.'' ''.'' [(''bogus'', ''x'')]
     = Inl (AssertionError, scenario_line)"
  by (simp add: add_def scenario_line_def scenario_header_def pos_ok_def)

text \<open>
  Claim C6, amended: \<^verbatim>\<open>add\<close> raises the assertion error, leaving the record as it was,
  whenever \<^verbatim>\<open>chr1\<close> or \<^verbatim>\<open>chr2\<close> is not in the header's chromosomes or
  \<^verbatim>\<open>pos1\<close> or \<^verbatim>\<open>pos2\<close> is not a positive integer (\<open>pos_ok\<close>: an instance of
  \<^verbatim>\<open>int\<close> greater than zero); it returns exactly when all four constraints hold and
  every key of the optional mapping is a column of the header; and it raises nothing but
  the assertion error.
\<close>

theorem add_raises_iff:
  "((\<exists>l'. add l c1 p1 c2 p2 s1 s2 rid opt = Inr l') =
      (c1 \<in> set (chromosomes (header l)) \<and> c2 \<in> set (chromosomes (header l)) \<and>
       pos_ok p1 \<and> pos_ok p2 \<and> set (dict_keys opt) \<subseteq> set (columns (header l)))) \<and>
   (c1 \<notin> set (chromosomes (header l)) \<or> c2 \<notin> set (chromosomes (header l)) \<or>
      \<not> pos_ok p1 \<or> \<not> pos_ok p2 \<longrightarrow>
      add l c1 p1 c2 p2 s1 s2 rid opt = Inl (AssertionError, l)) \<and>
   (\<forall>e l'. add l c1 p1 c2 p2 s1 s2 rid opt = Inl (e, l') \<longrightarrow> e = AssertionError)"
proof (cases "c1 \<in> set (chromosomes (header l)) \<and> c2 \<in> set (chromosomes (header l)) \<and>
       pos_ok p1 \<and> pos_ok p2")
  case False
  then have "add l c1 p1 c2 p2 s1 s2 rid opt = Inl (AssertionError, l)"
    by (intro add_checks_fail) blast
  with False show ?thesis by auto
next
  case True
  then obtain i1 i2 where i: "int_of p1 = Some i1" "0 < i1" "int_of p2 = Some i2" "0 < i2"
    by (auto simp: pos_ok_iff)
  let ?l1 = "l\<lparr>readID := Some rid, optional := Some []\<rparr>"
  have o: "optional ?l1 = Some []" by simp
  have eq: "add l c1 p1 c2 p2 s1 s2 rid opt =
     (case add_optional ?l1 opt of
        Inl e \<Rightarrow> Inl e
      | Inr l2 \<Rightarrow>
          Inr (if swap_test_U (header l) c1 i1 c2 i2 \<or> swap_test_L (header l) c1 i1 c2 i2
               then l2\<lparr>chr1 := Some c2, chr2 := Some c1, pos1 := Some p2, pos2 := Some p1,
                       strand1 := Some s2, strand2 := Some s1\<rparr>
               else l2\<lparr>chr1 := Some c1, chr2 := Some c2, pos1 := Some p1, pos2 := Some p2,
                       strand1 := Some s1, strand2 := Some s2\<rparr>))"
    using True i by (intro add_checks_pass) simp_all
  have ok: "(\<exists>l'. add l c1 p1 c2 p2 s1 s2 rid opt = Inr l') =
              (set (dict_keys opt) \<subseteq> set (columns (header l)))"
    using add_optional_ok_iff [OF o, of opt] by (auto simp: eq split: sum.splits)
  have err: "\<forall>e l'. add l c1 p1 c2 p2 s1 s2 rid opt = Inl (e, l') \<longrightarrow> e = AssertionError"
    using add_optional_error [OF o] by (auto simp: eq split: sum.splits)
  from True ok err show ?thesis by simp
qed

text \<open>
A valid call, an unknown chromosome, a zero position and a position that is a string.
\<close>

theorem add_raises_iff_witness:
  "(\<exists>l'. add (PairsLine_init scenario_header) ''chr1'' (PyInt 1000) ''chr2'' (PyInt 3000)
            ''.'' ''.'' ''.'' [] = Inr l') \<and>
   add (PairsLine_init scenario_header) ''chrX'' (PyInt 1000) ''chr2'' (PyInt 3000)
     ''.'' ''.'' ''.'' [] = Inl (AssertionError, PairsLine_init scenario_header) \<and>
   add (PairsLine_init scenario_header) ''chr1'' (PyInt 0) ''chr2'' (PyInt 3000)
     ''.'' ''.'' ''.'' [] = Inl (AssertionError, PairsLine_init scenario_header) \<and>
   add (PairsLine_init scenario_header) ''chr1'' (PyInt 1000) ''chr2'' (PyStr ''3000'')
     ''.'' ''.'' ''.'' [] = Inl (AssertionError, PairsLine_init scenario_header)"
proof -
  let ?l = "PairsLine_init scenario_header"
  have c: "chromosomes (header ?l) = [''chr1'', ''chr2'']"
    by (simp add: PairsLine_init_def scenario_header_def)
  have p: "pos_ok (PyInt 1000)" "pos_ok (PyInt 3000)" "\<not> pos_ok (PyInt 0)"
    "\<not> pos_ok (PyStr ''3000'')"
    by (simp_all add: pos_ok_def)
  from add_raises_iff [of ?l "''chr1''" "PyInt 1000" "''chr2''" "PyInt 3000" "''.''" "''.''" "''.''" "[]"]
  have "\<exists>l'. add ?l ''chr1'' (PyInt 1000) ''chr2'' (PyInt 3000) ''.'' ''.'' ''.'' [] = Inr l'"
    by (simp add: c p dict_keys_def)
  moreover
  from add_raises_iff [of ?l "''chrX''" "PyInt 1000" "''chr2''" "PyInt 3000" "''.''" "''.''" "''.''" "[]"]
  have "add ?l ''chrX'' (PyInt 1000) ''chr2'' (PyInt 3000) ''.'' ''.'' ''.'' []
          = Inl (AssertionError, ?l)"
    by (simp add: c)
  moreover
  from add_raises_iff [of ?l "''chr1''" "PyInt 0" "''chr2''" "PyInt 3000" "''.''" "''.''" "''.''" "[]"]
  have "add ?l ''chr1'' (PyInt 0) ''chr2'' (PyInt 3000) ''.'' ''.'' ''.'' []
          = Inl (AssertionError, ?l)"
    by (simp add: p)
  moreover
  from add_raises_iff [of ?l "''chr1''" "PyInt 1000" "''chr2''" "PyStr ''3000''" "''.''" "''.''" "''.''" "[]"]
  have "add ?l ''chr1'' (PyInt 1000) ''chr2'' (PyStr ''3000'') ''.'' ''.'' ''.'' []
          = Inl (AssertionError, ?l)"
    by (simp add: p)
  ultimately show ?thesis by blast
qed

subsection \<open>C7: when the constructor raises\<close>

text \<open>
  Claim C7 says that the constructor succeeds when the shape is \<^verbatim>\<open>'U'\<close> or \<^verbatim>\<open>'L'\<close>,
  no additional column is a reserved column name and no additional line has a reserved key.
  The column check is made against the column list as it grows, so a name given twice in
  the additional columns is refused as well.
\<close>

theorem PairsHeader_init_rejects_duplicate_additional_columns:
  "PairsHeader_init (Some [''chr1'']) ''U'' ''chr1-chr2-pos1-pos2'' None [''a'', ''a''] []
     = Inl AssertionError \<and>
   set [''a'', ''a''] \<inter> set reserved_columns = {} \<and>
   set (dict_keys ([] :: string dict)) \<inter> set reserved_header_keys = {}"
  by (simp add: PairsHeader_init_def reserved_columns_def dict_keys_def truthy_def)

text \<open>
  Claim C7, amended: the constructor raises, and then always the assertion error, exactly
  when the chromosomes are \<^verbatim>\<open>None\<close>, the shape is neither \<^verbatim>\<open>'U'\<close> nor \<^verbatim>\<open>'L'\<close>,
  an additional column is one of the seven reserved column names, an additional column is
  given twice, or a key of the additional lines is one of the five reserved header keys;
  otherwise it succeeds.
\<close>

theorem PairsHeader_init_fails_iff:
  "((\<exists>e. PairsHeader_init chroms shp srt ga ac al = Inl e) =
      (chroms = None \<or> \<not> (shp = ''U'' \<or> shp = ''L'') \<or> set ac \<inter> set reserved_columns \<noteq> {} \<or>
       \<not> distinct ac \<or> set (dict_keys al) \<inter> set reserved_header_keys \<noteq> {})) \<and>
   (\<forall>e. PairsHeader_init chroms shp srt ga ac al = Inl e \<longrightarrow> e = AssertionError)"
proof -
  have "(\<exists>e. PairsHeader_init chroms shp srt ga ac al = Inl e) =
          (\<not> (\<exists>h. PairsHeader_init chroms shp srt ga ac al = Inr h))"
    by (cases "PairsHeader_init chroms shp srt ga ac al") simp_all
  then show ?thesis
    using PairsHeader_init_succeeds_iff [of chroms shp srt ga ac al] PairsHeader_init_error
    by blast
qed

text \<open>
One instance for each of the three violations of the claim and one valid call.
\<close>

theorem PairsHeader_init_fails_iff_witness:
  "(\<exists>e. PairsHeader_init (Some [''chr1'']) ''X'' default_sorted None [] [] = Inl e) \<and>
   (\<exists>e. PairsHeader_init (Some [''chr1'']) ''U'' default_sorted None [''chr2''] [] = Inl e) \<and>
   (\<exists>e. PairsHeader_init (Some [''chr1'']) ''U'' default_sorted None [] [(''shape'', ''x'')]
          = Inl e) \<and>
   \<not> (\<exists>e. PairsHeader_init (Some [''chr1'']) ''L'' default_sorted None [''mismatch'']
            [(''creator'', ''haha'')] = Inl e)"
  using
    PairsHeader_init_fails_iff [of "Some [''chr1'']" "''X''" default_sorted None "[]" "[]"]
    PairsHeader_init_fails_iff [of "Some [''chr1'']" "''U''" default_sorted None "[''chr2'']" "[]"]
    PairsHeader_init_fails_iff [of "Some [''chr1'']" "''U''" default_sorted None "[]"
      "[(''shape'', ''x'')]"]
    PairsHeader_init_fails_iff [of "Some [''chr1'']" "''L''" default_sorted None "[''mismatch'']"
      "[(''creator'', ''haha'')]"]
  by (simp add: dict_keys_def reserved_columns_def reserved_header_keys_def)

subsection \<open>C8: the chromosomes are sorted\<close>

text \<open>
  Claim C8: with valid arguments the constructor succeeds and stores the chromosomes sorted
  ascending in the lexicographic order of strings, as a rearrangement of the list given:
  \<^verbatim>\<open>['chr2','chr1']\<close> is stored as \<^verbatim>\<open>['chr1','chr2']\<close>, and the ten names of the
  docstring, given in any order, are stored as
  \<^verbatim>\<open>['1','11','2','3','6','X','X12','XXX','Y','_']\<close>.
\<close>

theorem PairsHeader_init_sorts_chromosomes:
  assumes "shp = ''U'' \<or> shp = ''L''" and "set ac \<inter> set reserved_columns = {}"
    and "distinct ac" and "set (dict_keys al) \<inter> set reserved_header_keys = {}"
  shows "\<exists>h. PairsHeader_init (Some chrs) shp srt ga ac al = Inr h \<and>
           chromosomes h = sort chrs \<and> sorted (chromosomes h) \<and>
           mset (chromosomes h) = mset chrs \<and>
           (chrs = [''chr2'', ''chr1''] \<longrightarrow> chromosomes h = [''chr1'', ''chr2'']) \<and>
           (mset chrs = mset ten_chromosomes \<longrightarrow> chromosomes h = ten_chromosomes)"
proof -
  from assms obtain h where h: "PairsHeader_init (Some chrs) shp srt ga ac al = Inr h"
    using PairsHeader_init_succeeds_iff [of "Some chrs" shp srt ga ac al] by auto
  from PairsHeader_init_fields(1) [OF h] have c: "chromosomes h = sort chrs" by simp
  have two: "sort [''chr2'', ''chr1''] = [''chr1'', ''chr2'']" by simp
  have ten: "sorted ten_chromosomes" by (simp add: ten_chromosomes_def)
  have "sort chrs = ten_chromosomes" if "mset chrs = mset ten_chromosomes"
    using that ten by (intro properties_for_sort) simp_all
  with c two h show ?thesis by simp
qed

text \<open>
  The two lists of the claim, the second given in descending order, and a list of three
  names.
\<close>

theorem PairsHeader_init_sorts_chromosomes_witness:
  "PairsHeader_init (Some [''chr2'', ''chr1'']) ''U'' default_sorted None [] [] =
     Inr \<lparr>shape = ''U'', sorted_key = default_sorted, chromosomes = [''chr1'', ''chr2''],
          genome_assembly = None, columns = reserved_columns, additional_lines = []\<rparr> \<and>
   PairsHeader_init (Some [''chr2'', ''chr1'', ''chr3'']) ''L'' default_sorted None [] [] =
     Inr \<lparr>shape = ''L'', sorted_key = default_sorted,
          chromosomes = [''chr1'', ''chr2'', ''chr3''],
          genome_assembly = None, columns = reserved_columns, additional_lines = []\<rparr> \<and>
   PairsHeader_init (Some (rev ten_chromosomes)) ''U'' default_sorted None [] [] =
     Inr \<lparr>shape = ''U'', sorted_key = default_sorted, chromosomes = ten_chromosomes,
          genome_assembly = None, columns = reserved_columns, additional_lines = []\<rparr>"
proof -
  have v: "set ([] :: string list) \<inter> set reserved_columns = {}" "distinct ([] :: string list)"
    "set (dict_keys ([] :: string dict)) \<inter> set reserved_header_keys = {}"
    by (simp_all add: dict_keys_def)
  have u: "''U'' = ''U'' \<or> ''U'' = ''L''" and l: "''L'' = ''U'' \<or> ''L'' = ''L''" by simp_all
  have fields: "h = \<lparr>shape = shp, sorted_key = default_sorted, chromosomes = chromosomes h,
          genome_assembly = None, columns = reserved_columns, additional_lines = []\<rparr>"
    if "PairsHeader_init (Some chrs) shp default_sorted None [] [] = Inr h" for chrs shp h
    using that by (auto simp: PairsHeader_init_def truthy_def split: if_splits)
  from PairsHeader_init_sorts_chromosomes [OF u v, of "[''chr2'', ''chr1'']" default_sorted None]
  obtain h1 where h1: "PairsHeader_init (Some [''chr2'', ''chr1'']) ''U'' default_sorted None [] []
      = Inr h1" "chromosomes h1 = [''chr1'', ''chr2'']"
    by auto
  from PairsHeader_init_sorts_chromosomes [OF l v, of "[''chr2'', ''chr1'', ''chr3'']"
      default_sorted None]
  obtain h2 where h2: "PairsHeader_init (Some [''chr2'', ''chr1'', ''chr3'']) ''L'' default_sorted
      None [] [] = Inr h2" "chromosomes h2 = [''chr1'', ''chr2'', ''chr3'']"
    by auto
  from PairsHeader_init_sorts_chromosomes [OF u v, of "rev ten_chromosomes" default_sorted None]
  obtain h3 where h3: "PairsHeader_init (Some (rev ten_chromosomes)) ''U'' default_sorted None [] []
      = Inr h3" "chromosomes h3 = ten_chromosomes"
    by auto
  from fields [OF h1(1)] fields [OF h2(1)] fields [OF h3(1)] h1 h2 h3 show ?thesis by simp
qed

subsection \<open>C9: the header block\<close>

text \<open>
  Claim C9: \<^verbatim>\<open>print_header\<close> appends to the sink the entries shape, sorted, chromosomes,
  genome_assembly (only when there is one), columns and then the additional lines (nothing
  when there are none), each as \<^verbatim>\<open>#key : value\<close> and a newline; for the header of the
  scenario these are exactly five lines.
\<close>

theorem print_header_block:
  "print_header h fout = fout @ concat (map spec_render_entry (spec_header_entries h)) \<and>
   print_header scenario_header [] =
     ''#shape : upper triangle'' @ NL @
     ''#sorted : chr1-chr2-pos1-pos2'' @ NL @
     ''#chromosomes : chr1 chr2'' @ NL @
     ''#genome_assembly : hg19'' @ NL @
     ''#columns : readID chr1 position1 chr2 position2 strand1 strand2 mismatch'' @ NL \<and>
   length (spec_header_entries scenario_header) = 5"
proof -
  have gen: "print_header h fout = fout @ concat (map spec_render_entry (spec_header_entries h))"
    for h fout
    by (cases "genome_assembly h")
       (simp_all add: print_header_def Let_def format_additional_lines_def format_lines_concat
          spec_header_entries_def header_line_def spec_render_entry_def NL_def)
  have "concat (map spec_render_entry (spec_header_entries scenario_header)) =
     ''#shape : upper triangle'' @ NL @
     ''#sorted : chr1-chr2-pos1-pos2'' @ NL @
     ''#chromosomes : chr1 chr2'' @ NL @
     ''#genome_assembly : hg19'' @ NL @
     ''#columns : readID chr1 position1 chr2 position2 strand1 strand2 mismatch'' @ NL"
    by (simp add: spec_header_entries_def scenario_header_def spec_render_entry_def NL_def)
  moreover have "length (spec_header_entries scenario_header) = 5"
    by (simp add: spec_header_entries_def scenario_header_def)
  ultimately show ?thesis using gen by simp
qed

subsection \<open>C10: the record after a failed add\<close>

text \<open>
  Claim C10 says that whenever \<^verbatim>\<open>add\<close> raises, the record is as it was before the call.
  The four checks do come before any assignment, but the keys of the optional mapping are
  checked after \<^verbatim>\<open>readID\<close> and \<^verbatim>\<open>optional\<close> have been assigned: here the call raises
  and leaves a record with another read identifier and an emptied optional mapping.
\<close>

theorem add_failure_after_readID_overwritten:
  "add scenario_line_mismatch ''chr1'' (PyInt 1) ''chr1'' (PyInt 1) ''.'' ''.'' ''r2''
       [(''bogus'', ''x'')]
     = Inl (AssertionError, scenario_line_mismatch\<lparr>readID := Some ''r2'', optional := Some []\<rparr>) \<and>
   readID scenario_line_mismatch = Some ''.'' \<and>
   optional scenario_line_mismatch = Some [(''mismatch'', ''chr1:1070:A>T'')] \<and>
   scenario_line_mismatch\<lparr>readID := Some ''r2'', optional := Some []\<rparr> \<noteq> scenario_line_mismatch"
  by (simp add: add_def scenario_line_mismatch_def scenario_line_def scenario_header_def pos_ok_def)

text \<open>
  Claim C10, amended: the four checks are made before any field is written, so when one of
  them fails \<^verbatim>\<open>add\<close> raises with the record exactly as it was; and whenever \<^verbatim>\<open>add\<close>
  raises, the header, \<^verbatim>\<open>chr1\<close>, \<^verbatim>\<open>pos1\<close>, \<^verbatim>\<open>strand1\<close>, \<^verbatim>\<open>chr2\<close>, \<^verbatim>\<open>pos2\<close> and
  \<^verbatim>\<open>strand2\<close> are as they were.
\<close>

theorem add_failure_leaves_record:
  "(c1 \<notin> set (chromosomes (header l)) \<or> c2 \<notin> set (chromosomes (header l)) \<or>
      \<not> pos_ok p1 \<or> \<not> pos_ok p2 \<longrightarrow>
      add l c1 p1 c2 p2 s1 s2 rid opt = Inl (AssertionError, l)) \<and>
   (add l c1 p1 c2 p2 s1 s2 rid opt = Inl (e, l') \<longrightarrow>
      header l' = header l \<and> chr1 l' = chr1 l \<and> pos1 l' = pos1 l \<and> strand1 l' = strand1 l \<and>
      chr2 l' = chr2 l \<and> pos2 l' = pos2 l \<and> strand2 l' = strand2 l)"
proof (cases "c1 \<in> set (chromosomes (header l)) \<and> c2 \<in> set (chromosomes (header l)) \<and>
       pos_ok p1 \<and> pos_ok p2")
  case False
  then have "add l c1 p1 c2 p2 s1 s2 rid opt = Inl (AssertionError, l)"
    by (intro add_checks_fail) blast
  with False show ?thesis by auto
next
  case True
  then obtain i1 i2 where i: "int_of p1 = Some i1" "0 < i1" "int_of p2 = Some i2" "0 < i2"
    by (auto simp: pos_ok_iff)
  let ?l1 = "l\<lparr>readID := Some rid, optional := Some []\<rparr>"
  have eq: "add l c1 p1 c2 p2 s1 s2 rid opt =
     (case add_optional ?l1 opt of
        Inl e \<Rightarrow> Inl e
      | Inr l2 \<Rightarrow>
          Inr (if swap_test_U (header l) c1 i1 c2 i2 \<or> swap_test_L (header l) c1 i1 c2 i2
               then l2\<lparr>chr1 := Some c2, chr2 := Some c1, pos1 := Some p2, pos2 := Some p1,
                       strand1 := Some s2, strand2 := Some s1\<rparr>
               else l2\<lparr>chr1 := Some c1, chr2 := Some c2, pos1 := Some p1, pos2 := Some p2,
                       strand1 := Some s1, strand2 := Some s2\<rparr>))"
    using True i by (intro add_checks_pass) simp_all
  have "add l c1 p1 c2 p2 s1 s2 rid opt = Inl (e, l') \<longrightarrow>
      header l' = header l \<and> chr1 l' = chr1 l \<and> pos1 l' = pos1 l \<and> strand1 l' = strand1 l \<and>
      chr2 l' = chr2 l \<and> pos2 l' = pos2 l \<and> strand2 l' = strand2 l"
  proof
    assume "add l c1 p1 c2 p2 s1 s2 rid opt = Inl (e, l')"
    with eq have "add_optional ?l1 opt = Inl (e, l')"
      by (simp split: sum.splits)
    from add_optional_Inl_fields [OF this] show "header l' = header l \<and> chr1 l' = chr1 l \<and> pos1 l' = pos1 l \<and> strand1 l' = strand1 l \<and>
      chr2 l' = chr2 l \<and> pos2 l' = pos2 l \<and> strand2 l' = strand2 l" by simp
  qed
  with True show ?thesis by simp
qed

text \<open>
A failed chromosome check, and a failure on an optional key.
\<close>

theorem add_failure_leaves_record_witness:
  "add scenario_line_mismatch ''chrX'' (PyInt 1) ''chr1'' (PyInt 1) ''.'' ''.'' ''r2'' []
     = Inl (AssertionError, scenario_line_mismatch) \<and>
   add scenario_line_mismatch ''chr1'' (PyInt 1) ''chr1'' (PyInt 1) ''.'' ''.'' ''r2''
       [(''bogus'', ''x'')]
     = Inl (AssertionError, scenario_line_mismatch\<lparr>readID := Some ''r2'', optional := Some []\<rparr>) \<and>
   chr1 (scenario_line_mismatch\<lparr>readID := Some ''r2'', optional := Some []\<rparr>)
     = chr1 scenario_line_mismatch"
proof -
  let ?l = scenario_line_mismatch
  let ?l' = "scenario_line_mismatch\<lparr>readID := Some ''r2'', optional := Some []\<rparr>"
  have c: "''chrX'' \<notin> set (chromosomes (header ?l))"
    by (simp add: scenario_line_mismatch_def scenario_line_def scenario_header_def)
  have f: "add ?l ''chr1'' (PyInt 1) ''chr1'' (PyInt 1) ''.'' ''.'' ''r2'' [(''bogus'', ''x'')]
             = Inl (AssertionError, ?l')"
    by (simp add: add_def scenario_line_mismatch_def scenario_line_def scenario_header_def
          pos_ok_def)
  from c have "''chrX'' \<notin> set (chromosomes (header ?l)) \<or>
      ''chr1'' \<notin> set (chromosomes (header ?l)) \<or> \<not> pos_ok (PyInt 1) \<or> \<not> pos_ok (PyInt 1)"
    by blast
  from add_failure_leaves_record [of "''chrX''" ?l "''chr1''" "PyInt 1" "PyInt 1" "''.''" "''.''"
      "''r2''" "[]" AssertionError ?l, THEN conjunct1, THEN mp, OF this]
  have "add ?l ''chrX'' (PyInt 1) ''chr1'' (PyInt 1) ''.'' ''.'' ''r2'' []
          = Inl (AssertionError, ?l)" .
  moreover
  from add_failure_leaves_record [of "''chr1''" ?l "''chr1''" "PyInt 1" "PyInt 1" "''.''" "''.''"
      "''r2''" "[(''bogus'', ''x'')]" AssertionError ?l', THEN conjunct2, THEN mp, OF f]
  have "chr1 ?l' = chr1 ?l" by blast
  ultimately show ?thesis using f by blast
qed

end
